theory Spec2Isabelle
  imports Main
begin

section \<open>Exceptions\<close>

text \<open>
  The module \<^verbatim>\<open>pandera/typing/pyspark.py\<close> raises and catches Python exceptions. An
  exception is a value: its class, its message (what \<^verbatim>\<open>str(exc)\<close> gives) and the exception
  it was raised \<^verbatim>\<open>from\<close>, if any (\<^verbatim>\<open>__cause__\<close>). An instance of a subclass is represented
  by the class an \<^verbatim>\<open>except\<close> clause of this module matches it with; every class the module
  neither raises nor catches is an \<open>OtherError\<close>.
\<close>

datatype exn_class =
    TypeError
  | ValueError
  | NameError
  | IndexError
  | AttributeError
  | SchemaInitError
  | SchemaError
  | OtherError string

datatype exn = Exn (exn_class: exn_class) (message: string) (cause: "exn option")

definition str_exn :: "exn \<Rightarrow> string" where
  "str_exn exc = message exc"

section \<open>The collaborators\<close>

text \<open>
  A schema is the compiled form of a schema model; the module only calls its
  \<^verbatim>\<open>validate(obj, lazy=...)\<close>, which returns the validated data or raises. A schema model
  is a class; the module only evaluates \<^verbatim>\<open>schema_model.to_schema()\<close>, which returns a
  schema or raises (a \<open>SchemaInitError\<close> for a misconfigured model, an \<open>AttributeError\<close>
  when the object has no \<^verbatim>\<open>to_schema\<close>, or anything else). Both are parameters of the
  model: nothing is assumed about what they compute.
\<close>

record 'o schema =
  validate :: "'o \<Rightarrow> bool \<Rightarrow> exn + 'o"

record 'o schema_model =
  model_name :: string
  to_schema :: "exn + 'o schema"

text \<open>
  The calls the adapter makes to its collaborators, in order: the effect of a
  validation call besides its result.
\<close>

datatype 'o call =
    ToSchemaCall
  | ValidateCall 'o bool

section \<open>The integration adapter: \<^verbatim>\<open>_PydanticIntegrationMixIn\<close>\<close>

text \<open>
  The f-string of \<^verbatim>\<open>pydantic_validate\<close> up to the interpolated exception; \<open>cls_name\<close> is
  \<^verbatim>\<open>cls.__name__\<close>.
\<close>

definition guidance :: "string \<Rightarrow> string" where
  "guidance cls_name =
     ''Cannot use '' @ cls_name @ '' as a pydantic type as its '' @
     ''DataFrameModel cannot be converted to a DataFrameSchema.'' @ [CHR 0x0A] @
     ''Please revisit the model to address the following errors:'' @ [CHR 0x0A]"

text \<open>
  \<^verbatim>\<open>pydantic_validate(cls, obj, schema_model)\<close>: two \<^verbatim>\<open>try\<close> blocks, each with one
  \<^verbatim>\<open>except\<close> clause. The result is the list of collaborator calls made and either the
  exception raised (\<open>Inl\<close>) or the value returned (\<open>Inr\<close>).
\<close>

definition pydantic_validate ::
  "string \<Rightarrow> 'o \<Rightarrow> 'o schema_model \<Rightarrow> 'o call list \<times> (exn + 'o)" where
  "pydantic_validate cls_name obj schema_model =
     (case to_schema schema_model of
        Inl exc \<Rightarrow>
          ([ToSchemaCall],
           if exn_class exc = SchemaInitError
           then Inl (Exn ValueError (guidance cls_name @ str_exn exc) (Some exc))
           else Inl exc)
      | Inr schema \<Rightarrow>
          (case validate schema obj False of
             Inl exc \<Rightarrow>
               ([ToSchemaCall, ValidateCall obj False],
                if exn_class exc = SchemaError
                then Inl (Exn ValueError (str_exn exc) (Some exc))
                else Inl exc)
           | Inr valid_data \<Rightarrow>
               ([ToSchemaCall, ValidateCall obj False], Inr valid_data)))"

text \<open>
  A pydantic (pre-2.0) field descriptor: \<^verbatim>\<open>field.sub_fields\<close> is \<^verbatim>\<open>None\<close> or a list of
  fields, of which the module reads \<^verbatim>\<open>type_\<close> (here \<open>type_attr\<close>).
\<close>

record 'm sub_field =
  type_attr :: 'm

record 'm model_field =
  sub_fields :: "'m sub_field list option"

text \<open>
  \<^verbatim>\<open>_get_schema_model(cls, field)\<close>. \<^verbatim>\<open>not field.sub_fields\<close> holds for \<^verbatim>\<open>None\<close> and for
  the empty list.
\<close>

definition type_error_message :: string where
  "type_error_message =
     ''Expected a typed pandera.typing.DataFrame,'' @ '' e.g. DataFrame[Schema]''"

definition priv_get_schema_model :: "'m model_field \<Rightarrow> exn + 'm" where
  "priv_get_schema_model field =
     (case sub_fields field of
        None \<Rightarrow> Inl (Exn TypeError type_error_message None)
      | Some [] \<Rightarrow> Inl (Exn TypeError type_error_message None)
      | Some (sf # rest) \<Rightarrow> Inr (type_attr sf))"

text \<open>\<^verbatim>\<open>_pydantic_validate(cls, obj, field)\<close>, the validator of the pre-2.0 path.\<close>

definition priv_pydantic_validate ::
  "string \<Rightarrow> 'o \<Rightarrow> 'o schema_model model_field \<Rightarrow> 'o call list \<times> (exn + 'o)" where
  "priv_pydantic_validate cls_name obj field =
     (case priv_get_schema_model field of
        Inl exc \<Rightarrow> ([], Inl exc)
      | Inr schema_model \<Rightarrow> pydantic_validate cls_name obj schema_model)"

section \<open>Generic aliases and the wrapper types\<close>

text \<open>
  Modelled from the spec: \<^verbatim>\<open>_GenericAlias\<close> is imported from \<^verbatim>\<open>pandera.typing.pandas\<close>,
  which is not part of the sources at hand. The spec describes it as a lightweight value
  \<^verbatim>\<open>GenericAlias{baseType, parameter}\<close> "pairing a base type with a type parameter", built
  by an explicit parameterize operation that "preserves the subscript for later
  retrieval".
\<close>

datatype ('c, 'p) generic_alias = GenericAlias (base_type: 'c) (parameter: 'p)

text \<open>The three classes of the \<^verbatim>\<open>if PYSPARK_INSTALLED:\<close> block.\<close>

datatype wrapper = DataFrame | Series | Index

text \<open>
  \<^verbatim>\<open>DataFrame.__class_getitem__\<close> and \<^verbatim>\<open>Series.__class_getitem__\<close>, as their bodies read.
  The body of \<^verbatim>\<open>Index\<close> holds a docstring only.
\<close>

definition DataFrame_class_getitem :: "'c \<Rightarrow> 'p \<Rightarrow> ('c, 'p) generic_alias" where
  "DataFrame_class_getitem cls item = GenericAlias cls item"

definition Series_class_getitem :: "'c \<Rightarrow> 'p \<Rightarrow> ('c, 'p) generic_alias" where
  "Series_class_getitem cls item = GenericAlias cls item"

text \<open>
  The \<^verbatim>\<open>__class_getitem__\<close> that the body of each class defines itself, if it defines
  one. Where it defines none, Python's attribute lookup goes on to the base classes
  (\<^verbatim>\<open>IndexBase\<close>, \<^verbatim>\<open>ps.Index\<close>, \<^verbatim>\<open>Generic\<close>), which are not this module's.
\<close>

fun own_class_getitem :: "wrapper \<Rightarrow> (wrapper \<Rightarrow> 'p \<Rightarrow> (wrapper, 'p) generic_alias) option" where
  "own_class_getitem DataFrame = Some DataFrame_class_getitem"
| "own_class_getitem Series = Some Series_class_getitem"
| "own_class_getitem Index = None"

text \<open>
  What a subscription \<^verbatim>\<open>cls[item]\<close> evaluates to: an alias object, or some other object
  of the native library's own generic handling, about which nothing is said.
\<close>

datatype ('p, 'n) subscription =
    AliasObject "(wrapper, 'p) generic_alias"
  | NativeObject 'n

text \<open>
  \<^verbatim>\<open>cls[item]\<close> calls \<^verbatim>\<open>cls.__class_getitem__(item)\<close>, which Python looks up along the
  classes of \<^verbatim>\<open>cls\<close>: the method of the class's own body where it defines one, and
  otherwise the one inherited from the base classes. The base classes are not this
  module's, so their \<^verbatim>\<open>__class_getitem__\<close> is the parameter \<open>inherited\<close>.
\<close>

definition subscript ::
  "(wrapper \<Rightarrow> 'p \<Rightarrow> ('p, 'n) subscription) \<Rightarrow> wrapper \<Rightarrow> 'p \<Rightarrow> ('p, 'n) subscription" where
  "subscript inherited cls item =
     (case own_class_getitem cls of
        Some class_getitem \<Rightarrow> AliasObject (class_getitem cls item)
      | None \<Rightarrow> inherited cls item)"

text \<open>
  \<^verbatim>\<open>typing.Generic.__class_getitem__\<close>, the last base of each of the three classes: it
  builds the alias of the class and the item as well. It is what serves \<^verbatim>\<open>Index[item]\<close>
  when neither \<^verbatim>\<open>IndexBase\<close> nor \<^verbatim>\<open>ps.Index\<close> defines a \<^verbatim>\<open>__class_getitem__\<close>.
\<close>

definition Generic_class_getitem :: "wrapper \<Rightarrow> 'p \<Rightarrow> ('p, 'n) subscription" where
  "Generic_class_getitem cls item = AliasObject (GenericAlias cls item)"

section \<open>The pydantic 2 hook\<close>

text \<open>
  What pydantic hands to \<^verbatim>\<open>__get_pydantic_core_schema__\<close> as \<^verbatim>\<open>_source_type\<close>: the
  annotation of the field, which is the bare class or an alias made by subscripting it.
  \<^verbatim>\<open>typing.get_args\<close> gives the empty tuple for a class and the tuple of the alias's
  parameter otherwise.
\<close>

datatype 'p source_type =
    Unparameterized wrapper
  | Parameterized "(wrapper, 'p) generic_alias"

fun get_args :: "'p source_type \<Rightarrow> 'p list" where
  "get_args (Unparameterized cls) = []"
| "get_args (Parameterized alias) = [parameter alias]"

text \<open>\<^verbatim>\<open>t[0]\<close> on a tuple: Python raises \<^verbatim>\<open>IndexError\<close> when the tuple is empty.\<close>

fun tuple_getitem0 :: "'a list \<Rightarrow> exn + 'a" where
  "tuple_getitem0 [] = Inl (Exn IndexError ''tuple index out of range'' None)"
| "tuple_getitem0 (x # xs) = Inr x"

text \<open>
  \<^verbatim>\<open>core_schema.no_info_plain_validator_function(f)\<close>: the core schema that makes pydantic
  call \<open>f\<close> on the raw input.
\<close>

datatype 'o core_schema =
  NoInfoPlainValidatorFunction (validator: "'o \<Rightarrow> 'o call list \<times> (exn + 'o)")

text \<open>
  \<^verbatim>\<open>__get_pydantic_core_schema__(cls, _source_type, _handler)\<close>;
  \<^verbatim>\<open>functools.partial(cls.pydantic_validate, schema_model=schema_model)\<close> is the function
  of the one remaining argument \<open>obj\<close>.
\<close>

definition get_pydantic_core_schema ::
  "string \<Rightarrow> 'o schema_model source_type \<Rightarrow> 'h \<Rightarrow> exn + 'o core_schema" where
  "get_pydantic_core_schema cls_name source_type handler =
     (case tuple_getitem0 (get_args source_type) of
        Inl exc \<Rightarrow> Inl exc
      | Inr schema_model \<Rightarrow>
          Inr (NoInfoPlainValidatorFunction
                 (\<lambda>obj. pydantic_validate cls_name obj schema_model)))"

section \<open>Importing the module\<close>

text \<open>
  The module's top-level statements, run in order, as a function from the environment to
  the names the module ends up binding, or to the exception that aborts the import.
  The environment says whether \<^verbatim>\<open>import pyspark.pandas\<close> succeeds, what
  \<^verbatim>\<open>pandera.engines.PYDANTIC_V2\<close> is, and whether the interpreter evaluates the
  annotations of a \<^verbatim>\<open>def\<close> when the \<^verbatim>\<open>def\<close> statement runs (CPython up to 3.13 does, as
  the module has no \<^verbatim>\<open>from __future__ import annotations\<close>; from 3.14 on they are
  deferred). The imports of lines 2 to 16 are taken to succeed.
\<close>

record environment =
  pyspark_importable :: bool
  pydantic_v2 :: bool
  eager_annotations :: bool

definition name_error :: "string \<Rightarrow> exn" where
  "name_error x =
     Exn NameError (''name '' @ [CHR 0x27] @ x @ [CHR 0x27] @ '' is not defined'') None"

text \<open>Looking up, in order, the global names that a list of expressions starts with.\<close>

fun eval_names :: "string list \<Rightarrow> string list \<Rightarrow> exn + unit" where
  "eval_names globals [] = Inr ()"
| "eval_names globals (x # xs) =
     (if x \<in> set globals then eval_names globals xs else Inl (name_error x))"

text \<open>
  The \<^verbatim>\<open>def\<close> statements of a class body, each given by its name and the global names
  its annotations read: running them yields the names defined, or the first exception.
\<close>

fun exec_defs :: "environment \<Rightarrow> string list \<Rightarrow> (string \<times> string list) list \<Rightarrow> exn + string list" where
  "exec_defs env globals [] = Inr []"
| "exec_defs env globals ((name, annotations) # defs) =
     (case (if eager_annotations env then eval_names globals annotations else Inr ()) of
        Inl exc \<Rightarrow> Inl exc
      | Inr u \<Rightarrow>
          (case exec_defs env globals defs of
             Inl exc \<Rightarrow> Inl exc
           | Inr names \<Rightarrow> Inr (name # names)))"

text \<open>
  The body of \<^verbatim>\<open>class _PydanticIntegrationMixIn\<close>: \<^verbatim>\<open>_get_schema_model\<close> has no
  annotation; the hook of the \<^verbatim>\<open>if PYDANTIC_V2:\<close> branch is annotated with \<^verbatim>\<open>Any\<close>,
  \<^verbatim>\<open>GetCoreSchemaHandler\<close> and \<^verbatim>\<open>core_schema.CoreSchema\<close>; \<^verbatim>\<open>pydantic_validate\<close> and
  \<^verbatim>\<open>_pydantic_validate\<close> are annotated with \<^verbatim>\<open>Any\<close> and \<^verbatim>\<open>-> ps.DataFrame\<close>.
\<close>

definition MixIn_defs :: "environment \<Rightarrow> (string \<times> string list) list" where
  "MixIn_defs env =
     [(''_get_schema_model'', [])] @
     (if pydantic_v2 env
      then [(''__get_pydantic_core_schema__'', [''Any'', ''GetCoreSchemaHandler'', ''core_schema''])]
      else [(''__get_validators__'', [])]) @
     [(''pydantic_validate'', [''Any'', ''ps'']),
      (''_pydantic_validate'', [''Any'', ''ps''])]"

definition imported_names :: "string list" where
  "imported_names =
     [''functools'', ''TYPE_CHECKING'', ''Generic'', ''TypeVar'', ''Any'', ''get_args'',
      ''GetCoreSchemaHandler'', ''core_schema'', ''PYDANTIC_V2'', ''SchemaInitError'',
      ''SchemaError'', ''DataFrameBase'', ''GenericDtype'', ''IndexBase'', ''SeriesBase'',
      ''DataFrameModel'', ''_GenericAlias'']"

definition import_module :: "environment \<Rightarrow> exn + string list" where
  "import_module env =
     (let globals =
            imported_names @
            (if pyspark_importable env then [''ps'', ''PYSPARK_INSTALLED'']
             else [''PYSPARK_INSTALLED'']) @
            [''T'']
      in case exec_defs env globals (MixIn_defs env) of
           Inl exc \<Rightarrow> Inl exc
         | Inr methods \<Rightarrow>
             Inr (globals @ [''_PydanticIntegrationMixIn''] @
                  (if pyspark_importable env then [''DataFrame'', ''Series'', ''Index'']
                   else [])))"

section \<open>Example inputs\<close>

text \<open>
  A small stand-in for a dataframe (a dtype and one column), and collaborators over it:
  a schema that coerces to \<^verbatim>\<open>int64\<close> as pandera's \<^verbatim>\<open>coerce=True\<close> does, a schema that
  checks the column and raises \<open>SchemaError\<close> at the first negative value when eager
  (an aggregate of another class when lazy), a model that cannot be compiled, and an
  object (\<^verbatim>\<open>int\<close>) that has no \<^verbatim>\<open>to_schema\<close>.
\<close>

record frame =
  dtype :: string
  column :: "int list"

definition int32_frame :: frame where
  "int32_frame = \<lparr>dtype = ''int32'', column = [1, 2, 3]\<rparr>"

definition negative_frame :: frame where
  "negative_frame = \<lparr>dtype = ''int64'', column = [1, - 2, - 3]\<rparr>"

definition coercing_schema :: "frame schema" where
  "coercing_schema = \<lparr>validate = (\<lambda>obj lazy. Inr (obj\<lparr>dtype := ''int64''\<rparr>))\<rparr>"

definition coercing_model :: "frame schema_model" where
  "coercing_model = \<lparr>model_name = ''Coercing'', to_schema = Inr coercing_schema\<rparr>"

definition nonneg_schema :: "frame schema" where
  "nonneg_schema =
     \<lparr>validate = (\<lambda>obj lazy.
        if list_all (\<lambda>x. 0 \<le> x) (column obj) then Inr obj
        else if lazy then Inl (Exn (OtherError ''SchemaErrors'') ''2 schema errors'' None)
        else Inl (Exn SchemaError ''negative value in column'' None))\<rparr>"

definition nonneg_model :: "frame schema_model" where
  "nonneg_model = \<lparr>model_name = ''NonNeg'', to_schema = Inr nonneg_schema\<rparr>"

definition broken_model :: "frame schema_model" where
  "broken_model =
     \<lparr>model_name = ''Broken'',
      to_schema = Inl (Exn SchemaInitError ''field x has no dtype'' None)\<rparr>"

definition no_attribute_message :: string where
  "no_attribute_message =
     ''type object '' @ [CHR 0x27] @ ''int'' @ [CHR 0x27] @ '' has no attribute '' @
     [CHR 0x27] @ ''to_schema'' @ [CHR 0x27]"

definition no_to_schema :: "frame schema_model" where
  "no_to_schema =
     \<lparr>model_name = ''int'',
      to_schema = Inl (Exn AttributeError no_attribute_message None)\<rparr>"

definition failing_schema :: "frame schema" where
  "failing_schema =
     \<lparr>validate = (\<lambda>obj lazy. Inl (Exn (OtherError ''RuntimeError'') ''backend failure'' None))\<rparr>"

definition failing_model :: "frame schema_model" where
  "failing_model = \<lparr>model_name = ''Failing'', to_schema = Inr failing_schema\<rparr>"

section \<open>Supporting facts about the import\<close>

lemma import_with_pyspark:
  "import_module \<lparr>pyspark_importable = True, pydantic_v2 = v, eager_annotations = e\<rparr> =
     Inr (imported_names @
          [''ps'', ''PYSPARK_INSTALLED'', ''T'', ''_PydanticIntegrationMixIn'',
           ''DataFrame'', ''Series'', ''Index''])"
  by (cases e) (simp_all add: import_module_def MixIn_defs_def imported_names_def)

lemma import_with_deferred_annotations:
  "import_module \<lparr>pyspark_importable = False, pydantic_v2 = v, eager_annotations = False\<rparr> =
     Inr (imported_names @ [''PYSPARK_INSTALLED'', ''T'', ''_PydanticIntegrationMixIn''])"
  by (simp add: import_module_def MixIn_defs_def imported_names_def)

section \<open>The claims\<close>

subsection \<open>C1: a valid object\<close>

text \<open>
  C1, as the code has it: for every schema model whose \<^verbatim>\<open>to_schema()\<close> succeeds and every
  object on which \<^verbatim>\<open>schema.validate(obj, lazy=False)\<close> returns, \<^verbatim>\<open>pydantic_validate\<close>
  raises nothing and returns exactly the value that \<^verbatim>\<open>validate\<close> returned
  (\<^verbatim>\<open>valid_data\<close>), after one call of \<^verbatim>\<open>to_schema\<close> and one of \<^verbatim>\<open>validate\<close>. That value is
  the input wherever \<^verbatim>\<open>validate\<close> hands its argument back.
\<close>

theorem pydantic_validate_returns_validate_result:
  assumes "to_schema schema_model = Inr schema"
    and "validate schema obj False = Inr valid_data"
  shows "pydantic_validate cls_name obj schema_model =
           ([ToSchemaCall, ValidateCall obj False], Inr valid_data)"
  using assms by (simp add: pydantic_validate_def)

theorem pydantic_validate_returns_validate_result_witness:
  "pydantic_validate ''DataFrame'' int32_frame nonneg_model =
     ([ToSchemaCall, ValidateCall int32_frame False], Inr int32_frame)"
proof -
  have compiled: "to_schema nonneg_model = Inr nonneg_schema"
    by (simp add: nonneg_model_def)
  have valid: "validate nonneg_schema int32_frame False = Inr int32_frame"
    by (simp add: nonneg_schema_def int32_frame_def)
  show ?thesis
    by (rule pydantic_validate_returns_validate_result [OF compiled valid])
qed

text \<open>
  C1 as stated (the result equals the input) fails where the schema coerces: the model
  compiles, validation of the \<^verbatim>\<open>int32\<close> frame succeeds, and what comes back is the
  coerced \<^verbatim>\<open>int64\<close> frame, not the input.
\<close>

theorem pydantic_validate_not_pass_through:
  "to_schema coercing_model = Inr coercing_schema \<and>
   validate coercing_schema int32_frame False =
     Inr \<lparr>dtype = ''int64'', column = [1, 2, 3]\<rparr> \<and>
   snd (pydantic_validate ''DataFrame'' int32_frame coercing_model) =
     Inr \<lparr>dtype = ''int64'', column = [1, 2, 3]\<rparr> \<and>
   snd (pydantic_validate ''DataFrame'' int32_frame coercing_model) \<noteq> Inr int32_frame"
  by (simp add: pydantic_validate_def coercing_model_def coercing_schema_def int32_frame_def)

subsection \<open>C2: an invalid object\<close>

text \<open>
  C2: for every schema model whose \<^verbatim>\<open>to_schema()\<close> succeeds and every object on which
  \<^verbatim>\<open>schema.validate\<close> raises a \<open>SchemaError\<close>, \<^verbatim>\<open>pydantic_validate\<close> raises a
  \<open>ValueError\<close> whose message is the stringified schema error (chained to it), and the
  one call of \<^verbatim>\<open>validate\<close> is made with \<^verbatim>\<open>lazy=False\<close>.
\<close>

theorem schema_error_becomes_value_error:
  assumes "to_schema schema_model = Inr schema"
    and "validate schema obj False = Inl exc"
    and "exn_class exc = SchemaError"
  shows "pydantic_validate cls_name obj schema_model =
           ([ToSchemaCall, ValidateCall obj False],
            Inl (Exn ValueError (str_exn exc) (Some exc)))"
  using assms by (simp add: pydantic_validate_def)

theorem schema_error_becomes_value_error_witness:
  "pydantic_validate ''DataFrame'' negative_frame nonneg_model =
     ([ToSchemaCall, ValidateCall negative_frame False],
      Inl (Exn ValueError ''negative value in column''
             (Some (Exn SchemaError ''negative value in column'' None))))"
proof -
  let ?exc = "Exn SchemaError ''negative value in column'' None"
  have compiled: "to_schema nonneg_model = Inr nonneg_schema"
    by (simp add: nonneg_model_def)
  have invalid: "validate nonneg_schema negative_frame False = Inl ?exc"
    by (simp add: nonneg_schema_def negative_frame_def)
  have cls: "exn_class ?exc = SchemaError"
    by simp
  show ?thesis
    using schema_error_becomes_value_error [OF compiled invalid cls, of "''DataFrame''"]
    by (simp add: str_exn_def)
qed

subsection \<open>C3: importing the module without pyspark\<close>

text \<open>
  C3 says that with pyspark missing the import raises nothing and defines none of the
  wrapper types. On an interpreter that evaluates annotations at definition time the
  import does not get that far: the class body of the mixin reads \<^verbatim>\<open>ps.DataFrame\<close> in the
  return annotation of \<^verbatim>\<open>pydantic_validate\<close>, outside the \<^verbatim>\<open>if PYSPARK_INSTALLED:\<close> gate,
  and \<^verbatim>\<open>ps\<close> was never bound, so the import ends in a \<open>NameError\<close>.
\<close>

theorem import_without_pyspark_raises_name_error:
  "import_module \<lparr>pyspark_importable = False, pydantic_v2 = v, eager_annotations = True\<rparr> =
     Inl (name_error ''ps'')"
  by (simp add: import_module_def MixIn_defs_def imported_names_def)

subsection \<open>C4: a model that cannot be compiled\<close>

text \<open>
  C4: for every schema model whose \<^verbatim>\<open>to_schema()\<close> raises a \<open>SchemaInitError\<close>,
  \<^verbatim>\<open>pydantic_validate\<close> raises a \<open>ValueError\<close> whose message is the guidance to revisit the
  model followed by the original error's text, with the original exception as its cause;
  \<^verbatim>\<open>validate\<close> is not called.
\<close>

theorem schema_init_error_becomes_value_error:
  assumes "to_schema schema_model = Inl exc"
    and "exn_class exc = SchemaInitError"
  shows "pydantic_validate cls_name obj schema_model =
           ([ToSchemaCall],
            Inl (Exn ValueError
                   (''Cannot use '' @ cls_name @
                    '' as a pydantic type as its DataFrameModel cannot be converted to a DataFrameSchema.'' @
                    [CHR 0x0A] @ ''Please revisit the model to address the following errors:'' @
                    [CHR 0x0A] @ message exc)
                   (Some exc)))"
  using assms by (simp add: pydantic_validate_def guidance_def str_exn_def)

theorem schema_init_error_becomes_value_error_witness:
  "pydantic_validate ''DataFrame'' int32_frame broken_model =
     ([ToSchemaCall],
      Inl (Exn ValueError (guidance ''DataFrame'' @ ''field x has no dtype'')
             (Some (Exn SchemaInitError ''field x has no dtype'' None))))"
proof -
  let ?exc = "Exn SchemaInitError ''field x has no dtype'' None"
  have raised: "to_schema broken_model = Inl ?exc"
    by (simp add: broken_model_def)
  have cls: "exn_class ?exc = SchemaInitError"
    by simp
  show ?thesis
    using schema_init_error_becomes_value_error [OF raised cls, of "''DataFrame''" int32_frame]
    by (simp add: guidance_def)
qed

subsection \<open>C5: a field without sub-fields\<close>

text \<open>
  C5: for every field descriptor with no sub-fields (\<^verbatim>\<open>None\<close> or the empty list),
  \<^verbatim>\<open>_get_schema_model\<close> raises a \<open>TypeError\<close>, and \<^verbatim>\<open>_pydantic_validate\<close> raises it before
  any call of \<^verbatim>\<open>to_schema\<close> or \<^verbatim>\<open>validate\<close> is made; the error is not a \<open>ValueError\<close>.
\<close>

theorem unparameterized_field_type_error:
  assumes "sub_fields field = None \<or> sub_fields field = Some []"
  shows "priv_get_schema_model field = Inl (Exn TypeError type_error_message None) \<and>
         priv_pydantic_validate cls_name obj field =
           ([], Inl (Exn TypeError type_error_message None)) \<and>
         exn_class (Exn TypeError type_error_message None) \<noteq> ValueError"
  using assms by (auto simp add: priv_pydantic_validate_def priv_get_schema_model_def)

theorem unparameterized_field_type_error_witness:
  "priv_get_schema_model \<lparr>sub_fields = Some ([] :: frame schema_model sub_field list)\<rparr> =
     Inl (Exn TypeError type_error_message None) \<and>
   priv_pydantic_validate ''DataFrame'' int32_frame \<lparr>sub_fields = None\<rparr> =
     ([], Inl (Exn TypeError type_error_message None))"
proof -
  have empty:
    "sub_fields \<lparr>sub_fields = Some ([] :: frame schema_model sub_field list)\<rparr> = None \<or>
     sub_fields \<lparr>sub_fields = Some ([] :: frame schema_model sub_field list)\<rparr> = Some []"
    by simp
  have none:
    "sub_fields \<lparr>sub_fields = (None :: frame schema_model sub_field list option)\<rparr> = None \<or>
     sub_fields \<lparr>sub_fields = (None :: frame schema_model sub_field list option)\<rparr> = Some []"
    by simp
  show ?thesis
    using unparameterized_field_type_error [OF empty, of "''DataFrame''" int32_frame]
      unparameterized_field_type_error [OF none, of "''DataFrame''" int32_frame]
    by simp
qed

subsection \<open>C6: subscripting keeps the subscript\<close>

text \<open>
  C6: for every subscript item, \<^verbatim>\<open>DataFrame[item]\<close> (and \<^verbatim>\<open>Series[item]\<close>) is an alias of
  the class from which the item is recovered as given, also through the retrieval the
  2.0 hook uses (\<^verbatim>\<open>get_args(alias)[0]\<close>); two subscriptions give the same alias only for
  the same item, and each alias keeps its own item.
\<close>

theorem alias_round_trip:
  "parameter (DataFrame_class_getitem cls item) = item \<and>
   base_type (DataFrame_class_getitem cls item) = cls \<and>
   parameter (Series_class_getitem cls item) = item \<and>
   subscript inherited DataFrame item =
     AliasObject (DataFrame_class_getitem DataFrame item) \<and>
   tuple_getitem0 (get_args (Parameterized (DataFrame_class_getitem DataFrame item))) =
     Inr item \<and>
   (DataFrame_class_getitem cls item1 = DataFrame_class_getitem cls item2) =
     (item1 = item2) \<and>
   map parameter [DataFrame_class_getitem cls item1, DataFrame_class_getitem cls item2] =
     [item1, item2]"
  by (simp add: DataFrame_class_getitem_def Series_class_getitem_def subscript_def)

subsection \<open>C7: which classes override the subscription\<close>

text \<open>
  C7, as the code has it: \<^verbatim>\<open>DataFrame\<close> and \<^verbatim>\<open>Series\<close> each define a \<^verbatim>\<open>__class_getitem__\<close>
  that returns the custom alias of the class and the item, whatever the inherited generic
  handling would have returned. \<^verbatim>\<open>Index\<close> defines none: \<^verbatim>\<open>Index[item]\<close> is exactly what the
  \<^verbatim>\<open>__class_getitem__\<close> inherited from its base classes returns, which is the alias of
  \<^verbatim>\<open>Index\<close> and the item too when that is the one of \<^verbatim>\<open>typing.Generic\<close>.
\<close>

theorem wrapper_class_getitem_overrides:
  "own_class_getitem DataFrame =
     Some (DataFrame_class_getitem :: wrapper \<Rightarrow> 'p \<Rightarrow> (wrapper, 'p) generic_alias) \<and>
   own_class_getitem Series =
     Some (Series_class_getitem :: wrapper \<Rightarrow> 'p \<Rightarrow> (wrapper, 'p) generic_alias) \<and>
   own_class_getitem Index =
     (None :: (wrapper \<Rightarrow> 'p \<Rightarrow> (wrapper, 'p) generic_alias) option) \<and>
   subscript inherited DataFrame (item :: 'p) = AliasObject (GenericAlias DataFrame item) \<and>
   subscript inherited Series item = AliasObject (GenericAlias Series item) \<and>
   subscript inherited Index item = inherited Index item \<and>
   subscript (Generic_class_getitem :: wrapper \<Rightarrow> 'p \<Rightarrow> ('p, 'n) subscription) Index item =
     AliasObject (GenericAlias Index item)"
  by (simp add: subscript_def DataFrame_class_getitem_def Series_class_getitem_def
      Generic_class_getitem_def)

text \<open>
  C7 as stated (each of the three classes overrides the subscription) fails at \<^verbatim>\<open>Index\<close>:
  its body has no \<^verbatim>\<open>__class_getitem__\<close>, and \<^verbatim>\<open>Index[int]\<close> is served by the inherited one.
\<close>

theorem index_subscription_is_inherited:
  "own_class_getitem Index =
     (None :: (wrapper \<Rightarrow> string \<Rightarrow> (wrapper, string) generic_alias) option) \<and>
   \<not> (\<forall>cls. own_class_getitem cls \<noteq>
          (None :: (wrapper \<Rightarrow> string \<Rightarrow> (wrapper, string) generic_alias) option)) \<and>
   subscript Generic_class_getitem Index ''int'' =
     (Generic_class_getitem Index ''int'' :: (string, unit) subscription)"
proof -
  have none: "own_class_getitem Index =
      (None :: (wrapper \<Rightarrow> string \<Rightarrow> (wrapper, string) generic_alias) option)"
    by simp
  then have "\<exists>cls. own_class_getitem cls =
      (None :: (wrapper \<Rightarrow> string \<Rightarrow> (wrapper, string) generic_alias) option)"
    by (rule exI)
  with none show ?thesis
    by (simp add: subscript_def)
qed

subsection \<open>C8: the two registration paths\<close>

text \<open>
  C8: for every object and every field descriptor whose first sub-field carries the
  schema model \<open>M\<close>, the pre-2.0 validator \<^verbatim>\<open>_pydantic_validate(obj, field)\<close> returns or
  raises exactly what \<^verbatim>\<open>pydantic_validate(obj, M)\<close> does, with the same collaborator
  calls; and for every source type whose first argument is \<open>M\<close> the 2.0 hook succeeds
  with a plain validator function that computes \<^verbatim>\<open>pydantic_validate(obj, M)\<close> as well.
\<close>

theorem registration_paths_agree:
  assumes "sub_fields field = Some (sf # rest)"
    and "type_attr sf = schema_model"
    and "get_args source_type = schema_model # others"
  shows "priv_pydantic_validate cls_name obj field =
           pydantic_validate cls_name obj schema_model \<and>
         (\<exists>f. get_pydantic_core_schema cls_name source_type handler =
                 Inr (NoInfoPlainValidatorFunction f) \<and>
               f obj = pydantic_validate cls_name obj schema_model)"
  using assms
  by (simp add: priv_pydantic_validate_def priv_get_schema_model_def
      get_pydantic_core_schema_def)

theorem registration_paths_agree_witness:
  "priv_pydantic_validate ''DataFrame'' negative_frame
     \<lparr>sub_fields = Some [\<lparr>type_attr = nonneg_model\<rparr>]\<rparr> =
     pydantic_validate ''DataFrame'' negative_frame nonneg_model \<and>
   (\<exists>f. get_pydantic_core_schema ''DataFrame''
           (Parameterized (DataFrame_class_getitem DataFrame nonneg_model)) () =
           Inr (NoInfoPlainValidatorFunction f) \<and>
         f negative_frame = pydantic_validate ''DataFrame'' negative_frame nonneg_model)"
proof -
  have field: "sub_fields \<lparr>sub_fields = Some [\<lparr>type_attr = nonneg_model\<rparr>]\<rparr> =
                 Some (\<lparr>type_attr = nonneg_model\<rparr> # [])"
    by simp
  have sub: "type_attr \<lparr>type_attr = nonneg_model\<rparr> = nonneg_model"
    by simp
  have args: "get_args (Parameterized (DataFrame_class_getitem DataFrame nonneg_model)) =
                nonneg_model # []"
    by (simp add: DataFrame_class_getitem_def)
  show ?thesis
    by (rule registration_paths_agree [OF field sub args])
qed

subsection \<open>C9: exceptions that are not translated\<close>

text \<open>
  C9: an exception raised by \<^verbatim>\<open>to_schema()\<close> that is not a \<open>SchemaInitError\<close>, and an
  exception raised by \<^verbatim>\<open>schema.validate\<close> that is not a \<open>SchemaError\<close>, leaves
  \<^verbatim>\<open>pydantic_validate\<close> as it is: the same exception, not wrapped in a \<open>ValueError\<close>.
\<close>

theorem other_exceptions_propagate:
  "(to_schema schema_model = Inl exc \<and> exn_class exc \<noteq> SchemaInitError \<longrightarrow>
      pydantic_validate cls_name obj schema_model = ([ToSchemaCall], Inl exc)) \<and>
   (to_schema schema_model = Inr schema \<and> validate schema obj False = Inl exc \<and>
    exn_class exc \<noteq> SchemaError \<longrightarrow>
      pydantic_validate cls_name obj schema_model =
        ([ToSchemaCall, ValidateCall obj False], Inl exc))"
  by (simp add: pydantic_validate_def)

theorem other_exceptions_propagate_witness:
  "pydantic_validate ''DataFrame'' int32_frame no_to_schema =
     ([ToSchemaCall],
      Inl (Exn AttributeError no_attribute_message None)) \<and>
   pydantic_validate ''DataFrame'' int32_frame failing_model =
     ([ToSchemaCall, ValidateCall int32_frame False],
      Inl (Exn (OtherError ''RuntimeError'') ''backend failure'' None))"
proof -
  let ?attr = "Exn AttributeError no_attribute_message None"
  let ?run = "Exn (OtherError ''RuntimeError'') ''backend failure'' None"
  have first: "to_schema no_to_schema = Inl ?attr \<and> exn_class ?attr \<noteq> SchemaInitError"
    by (simp add: no_to_schema_def)
  have second: "to_schema failing_model = Inr failing_schema \<and>
                validate failing_schema int32_frame False = Inl ?run \<and>
                exn_class ?run \<noteq> SchemaError"
    by (simp add: failing_model_def failing_schema_def)
  from first
    other_exceptions_propagate [of no_to_schema ?attr "''DataFrame''" int32_frame failing_schema]
  have a: "pydantic_validate ''DataFrame'' int32_frame no_to_schema =
             ([ToSchemaCall], Inl ?attr)"
    by blast
  from second
    other_exceptions_propagate [of failing_model ?run "''DataFrame''" int32_frame failing_schema]
  have b: "pydantic_validate ''DataFrame'' int32_frame failing_model =
             ([ToSchemaCall, ValidateCall int32_frame False], Inl ?run)"
    by blast
  from a b show ?thesis by simp
qed

subsection \<open>C10: the 2.0 hook on a bare class\<close>

text \<open>
  C10: for every source type without arguments (\<^verbatim>\<open>get_args\<close> gives the empty tuple),
  \<^verbatim>\<open>__get_pydantic_core_schema__\<close> raises the \<open>IndexError\<close> of the unguarded
  \<^verbatim>\<open>get_args(_source_type)[0]\<close>, not a \<open>TypeError\<close>.
\<close>

theorem hook_index_error_when_unparameterized:
  assumes "get_args source_type = []"
  shows "get_pydantic_core_schema cls_name source_type handler =
           Inl (Exn IndexError ''tuple index out of range'' None) \<and>
         exn_class (Exn IndexError ''tuple index out of range'' None) \<noteq> TypeError"
  using assms by (simp add: get_pydantic_core_schema_def)

theorem hook_index_error_when_unparameterized_witness:
  "get_pydantic_core_schema ''DataFrame''
     (Unparameterized DataFrame :: frame schema_model source_type) () =
     Inl (Exn IndexError ''tuple index out of range'' None)"
proof -
  have bare: "get_args (Unparameterized DataFrame :: frame schema_model source_type) = []"
    by simp
  show ?thesis
    using hook_index_error_when_unparameterized [OF bare, of "''DataFrame''" "()"]
    by simp
qed

end
